theory Spec2Isabelle
  imports Main "HOL-Library.Word"
begin

section \<open>Data model of \<^verbatim>\<open>pycoin/key/Key.py\<close>\<close>

text \<open>
  Python \<^verbatim>\<open>bytes\<close> are lists of octets, a public pair is a 2-tuple whose coordinates
  may be \<^verbatim>\<open>None\<close> (the source tests \<^verbatim>\<open>None in self._public_pair\<close>), an ECDSA signature
  is the pair \<^verbatim>\<open>(r, s)\<close> of unbounded integers.
\<close>

type_synonym bytes = "8 word list"
type_synonym point = "int option \<times> int option"
type_synonym rs = "int \<times> int"

text \<open>
  The curve group is not part of this file of the repository: \<^verbatim>\<open>Key\<close> only calls the
  methods below on the \<^verbatim>\<open>generator\<close> object it is handed. The object is a parameter of
  the model, a record of the methods the source calls: \<^verbatim>\<open>generator.order()\<close>,
  \<^verbatim>\<open>secret_exponent * generator\<close>, \<^verbatim>\<open>contains_point(x, y)\<close>, \<^verbatim>\<open>sign(secret_exponent, val)\<close>,
  \<^verbatim>\<open>verify(pubkey, val, rs)\<close> and \<^verbatim>\<open>possible_public_pairs_for_signature(val, rs)\<close>.
\<close>

record generator =
  g_order :: int
  g_mul :: "int \<Rightarrow> point"
  g_contains_point :: "int \<Rightarrow> int \<Rightarrow> bool"
  g_sign :: "int \<Rightarrow> int \<Rightarrow> rs"
  g_verify :: "point \<Rightarrow> int \<Rightarrow> rs \<Rightarrow> bool"
  g_possible_public_pairs_for_signature :: "int \<Rightarrow> rs \<Rightarrow> point list"

text \<open>
  The functions imported from \<^verbatim>\<open>pycoin.encoding\<close>, \<^verbatim>\<open>pycoin.serialize\<close> and
  \<^verbatim>\<open>pycoin.satoshi.der\<close> are parameters as well. \<^verbatim>\<open>sigdecode_der\<close> raises on malformed
  input, which is the value \<open>None\<close> here.
\<close>

record encoding =
  from_bytes_32 :: "bytes \<Rightarrow> int"
  hash160 :: "bytes \<Rightarrow> bytes"
  hash160_sec_to_bitcoin_address :: "bytes \<Rightarrow> bytes \<Rightarrow> string"
  public_pair_to_sec :: "point \<Rightarrow> bool \<Rightarrow> bytes"
  public_pair_to_hash160_sec :: "point \<Rightarrow> bool \<Rightarrow> bytes"
  secret_exponent_to_wif :: "int \<Rightarrow> bool \<Rightarrow> bytes \<Rightarrow> string"
  b2h :: "bytes \<Rightarrow> string"
  sigencode_der :: "int \<Rightarrow> int \<Rightarrow> bytes"
  sigdecode_der :: "bytes \<Rightarrow> rs option"

text \<open>The class attributes set by \<^verbatim>\<open>make_subclass\<close> (all \<^verbatim>\<open>None\<close> on \<^verbatim>\<open>Key\<close> itself).\<close>

record key_class =
  wif_prefix :: "bytes option"
  sec_prefix :: "string option"
  address_prefix :: "bytes option"

text \<open>The instance attributes \<^verbatim>\<open>self._x\<close>, and the class \<^verbatim>\<open>self.__class__\<close>.\<close>

record key =
  self_class :: key_class
  self_prefer_uncompressed :: bool
  self_secret_exponent :: "int option"
  self_generator :: "generator option"
  self_public_pair :: "point option"
  self_hash160_uncompressed :: "bytes option"
  self_hash160_compressed :: "bytes option"

text \<open>Every \<^verbatim>\<open>raise\<close> of the source, and the two exceptions a \<^verbatim>\<open>None\<close> operand would cause.\<close>

datatype error =
    ValueError_exactly_one
  | ValueError_generator_not_specified
  | InvalidSecretExponentError
  | InvalidPublicPairError
  | ValueError_wif_prefix_not_set
  | ValueError_sec_prefix_not_set
  | ValueError_address_prefix_not_set
  | RuntimeError_must_be_private
  | ValueError_generator_must_be_specified
  | DerDecodeError
  | AttributeError
  | TypeError

text \<open>
  The calls a method makes to the collaborators are returned beside its result, in
  the order they are made, so that ``is computed once'' and ``is never called'' are
  statements about a value. (The constructor's three calls on the generator are not
  recorded: no statement below counts them.)
\<close>

datatype ext_call =
    Call_from_bytes_32 bytes
  | Call_hash160 bytes
  | Call_hash160_sec_to_bitcoin_address bytes bytes
  | Call_public_pair_to_sec point bool
  | Call_public_pair_to_hash160_sec point bool
  | Call_secret_exponent_to_wif int bool bytes
  | Call_b2h bytes
  | Call_sigencode_der int int
  | Call_sigdecode_der bytes
  | Call_sign int int
  | Call_verify point int rs
  | Call_possible_public_pairs_for_signature int rs

subsection \<open>Python truth values\<close>

text \<open>
  \<^verbatim>\<open>if x:\<close> is false for \<^verbatim>\<open>None\<close>, for the integer 0 and for an empty sequence; an
  object such as a generator is true.
\<close>

definition truthy_int :: "int option \<Rightarrow> bool" where
  "truthy_int x = (case x of None \<Rightarrow> False | Some n \<Rightarrow> n \<noteq> 0)"

definition truthy_seq :: "'a list option \<Rightarrow> bool" where
  "truthy_seq x = (case x of None \<Rightarrow> False | Some b \<Rightarrow> b \<noteq> [])"

definition truthy_obj :: "'a option \<Rightarrow> bool" where
  "truthy_obj x = (case x of None \<Rightarrow> False | Some _ \<Rightarrow> True)"

text \<open>\<^verbatim>\<open>a or b\<close> on optional sequences.\<close>

definition or_seq :: "'a list option \<Rightarrow> 'a list option \<Rightarrow> 'a list option" where
  "or_seq a b = (if truthy_seq a then a else b)"

section \<open>Construction\<close>

text \<open>\<^verbatim>\<open>[secret_exponent, public_pair, hash160].count(None)\<close>\<close>

definition count_None :: "int option \<Rightarrow> point option \<Rightarrow> bytes option \<Rightarrow> nat" where
  "count_None secret_exponent public_pair h160 =
     (if secret_exponent = None then 1 else 0) + (if public_pair = None then 1 else 0)
       + (if h160 = None then 1 else 0)"

text \<open>Lines 77 to 82: the public pair of a secret exponent.\<close>

definition init_public_pair :: "key \<Rightarrow> error + key" where
  "init_public_pair self =
     (case (self_public_pair self, self_secret_exponent self) of
        (None, Some e) \<Rightarrow>
          if e < 1 then Inl InvalidSecretExponentError
          else (case self_generator self of
                  None \<Rightarrow> Inl AttributeError
                | Some g \<Rightarrow>
                    if e \<ge> g_order g then Inl InvalidSecretExponentError
                    else Inr (self\<lparr>self_public_pair := Some (g_mul g e)\<rparr>))
      | _ \<Rightarrow> Inr self)"

text \<open>Lines 84 to 87: the public pair has two coordinates and is on the curve.\<close>

definition init_check_public_pair :: "key \<Rightarrow> error + key" where
  "init_check_public_pair self =
     (case self_public_pair self of
        None \<Rightarrow> Inr self
      | Some (Some x, Some y) \<Rightarrow>
          (case self_generator self of
             None \<Rightarrow> Inr self
           | Some g \<Rightarrow> if \<not> g_contains_point g x y then Inl InvalidPublicPairError else Inr self)
      | Some _ \<Rightarrow> Inl InvalidPublicPairError)"

definition Key_init ::
  "key_class \<Rightarrow> int option \<Rightarrow> generator option \<Rightarrow> point option \<Rightarrow> bytes option \<Rightarrow>
     bool option \<Rightarrow> bool option \<Rightarrow> bool \<Rightarrow> error + key" where
  "Key_init cls secret_exponent generator public_pair h160 prefer_uncompressed
       is_compressed is_pay_to_script =
     (let is_compressed1 =
            (case is_compressed of
               None \<Rightarrow> (if truthy_seq h160 then False else True)
             | Some b \<Rightarrow> b)
      in if count_None secret_exponent public_pair h160 \<noteq> 2 then Inl ValueError_exactly_one
         else if truthy_int secret_exponent \<and> \<not> truthy_obj generator
           then Inl ValueError_generator_not_specified
         else
           let prefer_uncompressed1 =
                 (case prefer_uncompressed of None \<Rightarrow> \<not> is_compressed1 | Some b \<Rightarrow> b);
               self0 = \<lparr> self_class = cls,
                         self_prefer_uncompressed = prefer_uncompressed1,
                         self_secret_exponent = secret_exponent,
                         self_generator = generator,
                         self_public_pair = public_pair,
                         self_hash160_uncompressed = None,
                         self_hash160_compressed = None \<rparr>;
               self1 =
                 (if truthy_seq h160
                  then (if is_compressed1 then self0\<lparr>self_hash160_compressed := h160\<rparr>
                        else self0\<lparr>self_hash160_uncompressed := h160\<rparr>)
                  else self0)
           in (case init_public_pair self1 of
                 Inl err \<Rightarrow> Inl err
               | Inr self2 \<Rightarrow> init_check_public_pair self2))"

section \<open>Accessors\<close>

definition Key_secret_exponent :: "key \<Rightarrow> int option" where
  "Key_secret_exponent self = self_secret_exponent self"

definition Key_is_private :: "key \<Rightarrow> bool" where
  "Key_is_private self = (Key_secret_exponent self \<noteq> None)"

definition Key_public_pair :: "key \<Rightarrow> point option" where
  "Key_public_pair self = self_public_pair self"

definition Key_use_uncompressed :: "key \<Rightarrow> bool option \<Rightarrow> bool" where
  "Key_use_uncompressed self use_uncompressed =
     (case use_uncompressed of
        Some True \<Rightarrow> True
      | None \<Rightarrow> self_prefer_uncompressed self
      | Some False \<Rightarrow> False)"

definition Key_wif ::
  "encoding \<Rightarrow> key \<Rightarrow> bool option \<Rightarrow> bytes option \<Rightarrow> (error + string option) \<times> ext_call list" where
  "Key_wif enc self use_uncompressed wif_prefix_arg =
     (case Key_secret_exponent self of
        None \<Rightarrow> (Inr None, [])
      | Some e \<Rightarrow>
          (case or_seq wif_prefix_arg (wif_prefix (self_class self)) of
             None \<Rightarrow> (Inl ValueError_wif_prefix_not_set, [])
           | Some p \<Rightarrow>
               let compressed = \<not> Key_use_uncompressed self use_uncompressed
               in (Inr (Some (secret_exponent_to_wif enc e compressed p)),
                   [Call_secret_exponent_to_wif e compressed p])))"

definition Key_sec :: "encoding \<Rightarrow> key \<Rightarrow> bool option \<Rightarrow> bytes option \<times> ext_call list" where
  "Key_sec enc self use_uncompressed =
     (case Key_public_pair self of
        None \<Rightarrow> (None, [])
      | Some pp \<Rightarrow>
          let compressed = \<not> Key_use_uncompressed self use_uncompressed
          in (Some (public_pair_to_sec enc pp compressed), [Call_public_pair_to_sec pp compressed]))"

definition Key_sec_as_hex ::
  "encoding \<Rightarrow> key \<Rightarrow> bool option \<Rightarrow> string option \<Rightarrow> (error + string option) \<times> ext_call list" where
  "Key_sec_as_hex enc self use_uncompressed sec_prefix_arg =
     (case Key_sec enc self use_uncompressed of
        (None, l) \<Rightarrow> (Inr None, l)
      | (Some sec, l) \<Rightarrow>
          (case (case sec_prefix_arg of None \<Rightarrow> sec_prefix (self_class self) | Some p \<Rightarrow> Some p) of
             None \<Rightarrow> (Inl ValueError_sec_prefix_not_set, l)
           | Some p \<Rightarrow> (Inr (Some (p @ b2h enc sec)), l @ [Call_b2h sec])))"

text \<open>
  \<^verbatim>\<open>hash160(self.sec(...))\<close> is only reached when the public pair is known; the
  library function would raise \<^verbatim>\<open>TypeError\<close> on \<^verbatim>\<open>None\<close>.
\<close>

definition hash160_of_sec ::
  "encoding \<Rightarrow> key \<Rightarrow> bool \<Rightarrow> (error + bytes) \<times> ext_call list" where
  "hash160_of_sec enc self use_uncompressed =
     (case Key_sec enc self (Some use_uncompressed) of
        (None, l) \<Rightarrow> (Inl TypeError, l)
      | (Some sec, l) \<Rightarrow> (Inr (hash160 enc sec), l @ [Call_hash160 sec]))"

definition Key_hash160 ::
  "encoding \<Rightarrow> key \<Rightarrow> bool option \<Rightarrow> (error + bytes option) \<times> key \<times> ext_call list" where
  "Key_hash160 enc self use_uncompressed_arg =
     (let use_uncompressed = Key_use_uncompressed self use_uncompressed_arg
      in if Key_public_pair self = None then
           (if use_uncompressed then (Inr (self_hash160_uncompressed self), self, [])
            else (Inr (self_hash160_compressed self), self, []))
         else if use_uncompressed then
           (if self_hash160_uncompressed self = None then
              (case hash160_of_sec enc self use_uncompressed of
                 (Inl err, l) \<Rightarrow> (Inl err, self, l)
               | (Inr h, l) \<Rightarrow> (Inr (Some h), self\<lparr>self_hash160_uncompressed := Some h\<rparr>, l))
            else (Inr (self_hash160_uncompressed self), self, []))
         else
           (if self_hash160_compressed self = None then
              (case hash160_of_sec enc self use_uncompressed of
                 (Inl err, l) \<Rightarrow> (Inl err, self, l)
               | (Inr h, l) \<Rightarrow> (Inr (Some h), self\<lparr>self_hash160_compressed := Some h\<rparr>, l))
            else (Inr (self_hash160_compressed self), self, [])))"

definition Key_address ::
  "encoding \<Rightarrow> key \<Rightarrow> bool option \<Rightarrow> bytes option \<Rightarrow>
     (error + string option) \<times> key \<times> ext_call list" where
  "Key_address enc self use_uncompressed address_prefix_arg =
     (case Key_hash160 enc self use_uncompressed of
        (Inl err, self1, l) \<Rightarrow> (Inl err, self1, l)
      | (Inr h160, self1, l) \<Rightarrow>
          (case h160 of
             None \<Rightarrow> (Inr None, self1, l)
           | Some h \<Rightarrow>
               if h = [] then (Inr None, self1, l)
               else (case or_seq address_prefix_arg (address_prefix (self_class self1)) of
                       None \<Rightarrow> (Inl ValueError_address_prefix_not_set, self1, l)
                     | Some p \<Rightarrow>
                         (Inr (Some (hash160_sec_to_bitcoin_address enc h p)), self1,
                          l @ [Call_hash160_sec_to_bitcoin_address h p]))))"

definition Key_as_text ::
  "encoding \<Rightarrow> key \<Rightarrow> bytes option \<Rightarrow> string option \<Rightarrow> bytes option \<Rightarrow>
     (error + string option) \<times> key \<times> ext_call list" where
  "Key_as_text enc self address_prefix_arg sec_prefix_arg wif_prefix_arg =
     (if truthy_int (Key_secret_exponent self) then
        (case Key_wif enc self None wif_prefix_arg of (r, l) \<Rightarrow> (r, self, l))
      else
        (case Key_sec_as_hex enc self None sec_prefix_arg of
           (Inl err, l) \<Rightarrow> (Inl err, self, l)
         | (Inr sec_hex, l) \<Rightarrow>
             if truthy_seq sec_hex then (Inr sec_hex, self, l)
             else (case Key_address enc self None address_prefix_arg of
                     (r, self1, l1) \<Rightarrow> (r, self1, l @ l1))))"

definition Key_public_copy :: "key \<Rightarrow> error + key" where
  "Key_public_copy self =
     (if Key_secret_exponent self = None then Inr self
      else Key_init (self_class self) None None (Key_public_pair self) None
             (Some (self_prefer_uncompressed self))
             (Some (self_hash160_compressed self \<noteq> None)) False)"

definition Key_subkey :: "key \<Rightarrow> 'a \<Rightarrow> key" where
  "Key_subkey self path_to_subkey = self"

section \<open>Signing and verification\<close>

definition Key_sign :: "encoding \<Rightarrow> key \<Rightarrow> bytes \<Rightarrow> (error + bytes) \<times> ext_call list" where
  "Key_sign enc self h =
     (case Key_secret_exponent self of
        None \<Rightarrow> (Inl RuntimeError_must_be_private, [])
      | Some e \<Rightarrow>
          let val = from_bytes_32 enc h
          in (case self_generator self of
                None \<Rightarrow> (Inl AttributeError, [Call_from_bytes_32 h])
              | Some g \<Rightarrow>
                  (case g_sign g e val of
                     (r, s) \<Rightarrow>
                       (Inr (sigencode_der enc r s),
                        [Call_from_bytes_32 h, Call_sign e val, Call_sigencode_der r s]))))"

text \<open>
  The \<^verbatim>\<open>for candidate in possible_pubkeys\<close> loop of \<^verbatim>\<open>verify\<close>: \<open>Some\<close> candidate on
  \<^verbatim>\<open>break\<close>, \<open>None\<close> when the loop runs to its \<^verbatim>\<open>else\<close>.
\<close>

fun verify_candidates ::
  "encoding \<Rightarrow> bytes option \<Rightarrow> point list \<Rightarrow> point option \<times> ext_call list" where
  "verify_candidates enc h160 [] = (None, [])"
| "verify_candidates enc h160 (candidate # rest) =
     (if h160 = Some (public_pair_to_hash160_sec enc candidate True)
      then (Some candidate, [Call_public_pair_to_hash160_sec candidate True])
      else if h160 = Some (public_pair_to_hash160_sec enc candidate False)
      then (Some candidate,
            [Call_public_pair_to_hash160_sec candidate True,
             Call_public_pair_to_hash160_sec candidate False])
      else (case verify_candidates enc h160 rest of
              (r, l) \<Rightarrow>
                (r, Call_public_pair_to_hash160_sec candidate True
                      # Call_public_pair_to_hash160_sec candidate False # l)))"

definition Key_verify ::
  "encoding \<Rightarrow> key \<Rightarrow> bytes \<Rightarrow> bytes \<Rightarrow> generator option \<Rightarrow>
     (error + bool) \<times> key \<times> ext_call list" where
  "Key_verify enc self h sig generator_arg =
     (case (if truthy_obj generator_arg then generator_arg else self_generator self) of
        None \<Rightarrow> (Inl ValueError_generator_must_be_specified, self, [])
      | Some g \<Rightarrow>
          let val = from_bytes_32 enc h
          in (case sigdecode_der enc sig of
                None \<Rightarrow> (Inl DerDecodeError, self, [Call_from_bytes_32 h, Call_sigdecode_der sig])
              | Some rs \<Rightarrow>
                  (case Key_public_pair self of
                     Some pubkey \<Rightarrow>
                       (Inr (g_verify g pubkey val rs), self,
                        [Call_from_bytes_32 h, Call_sigdecode_der sig, Call_verify pubkey val rs])
                   | None \<Rightarrow>
                       let possible_pubkeys = g_possible_public_pairs_for_signature g val rs
                       in (case Key_hash160 enc self None of
                             (Inl err, self1, l1) \<Rightarrow>
                               (Inl err, self1,
                                [Call_from_bytes_32 h, Call_sigdecode_der sig,
                                 Call_possible_public_pairs_for_signature val rs] @ l1)
                           | (Inr h160, self1, l1) \<Rightarrow>
                               (case verify_candidates enc h160 possible_pubkeys of
                                  (None, l2) \<Rightarrow>
                                    (Inr False, self1,
                                     [Call_from_bytes_32 h, Call_sigdecode_der sig,
                                      Call_possible_public_pairs_for_signature val rs] @ l1 @ l2)
                                | (Some pubkey, l2) \<Rightarrow>
                                    (Inr (g_verify g pubkey val rs), self1,
                                     [Call_from_bytes_32 h, Call_sigdecode_der sig,
                                      Call_possible_public_pairs_for_signature val rs] @ l1 @ l2
                                       @ [Call_verify pubkey val rs]))))))"

section \<open>The life of an instance\<close>

text \<open>
  A call of one public method on an instance, with its arguments. \<open>invoke\<close> gives the
  instance after the call (Python mutates \<^verbatim>\<open>self\<close>, also when the call then raises)
  and the collaborator calls made; \<open>invoke_all\<close> runs a sequence of calls.
  \<^verbatim>\<open>public_copy\<close> builds another instance and leaves \<^verbatim>\<open>self\<close> alone. Of the remaining
  methods, \<^verbatim>\<open>subkeys\<close> only yields \<^verbatim>\<open>self\<close>, and \<^verbatim>\<open>__repr__\<close> is \<^verbatim>\<open>as_text(sec_prefix='')\<close>
  on \<^verbatim>\<open>public_copy()\<close>, which is \<^verbatim>\<open>self\<close> for a key without a secret exponent and another
  instance otherwise.
\<close>

datatype invocation =
    M_is_private
  | M_secret_exponent
  | M_public_pair
  | M_wif "bool option" "bytes option"
  | M_sec "bool option"
  | M_sec_as_hex "bool option" "string option"
  | M_hash160 "bool option"
  | M_address "bool option" "bytes option"
  | M_as_text "bytes option" "string option" "bytes option"
  | M_public_copy
  | M_subkey
  | M_sign bytes
  | M_verify bytes bytes "generator option"

fun invoke :: "encoding \<Rightarrow> key \<Rightarrow> invocation \<Rightarrow> key \<times> ext_call list" where
  "invoke enc self M_is_private = (self, [])"
| "invoke enc self M_secret_exponent = (self, [])"
| "invoke enc self M_public_pair = (self, [])"
| "invoke enc self (M_wif use_uncompressed p) = (self, snd (Key_wif enc self use_uncompressed p))"
| "invoke enc self (M_sec use_uncompressed) = (self, snd (Key_sec enc self use_uncompressed))"
| "invoke enc self (M_sec_as_hex use_uncompressed p) =
     (self, snd (Key_sec_as_hex enc self use_uncompressed p))"
| "invoke enc self (M_hash160 use_uncompressed) = snd (Key_hash160 enc self use_uncompressed)"
| "invoke enc self (M_address use_uncompressed p) = snd (Key_address enc self use_uncompressed p)"
| "invoke enc self (M_as_text ap sp wp) = snd (Key_as_text enc self ap sp wp)"
| "invoke enc self M_public_copy = (self, [])"
| "invoke enc self M_subkey = (self, [])"
| "invoke enc self (M_sign h) = (self, snd (Key_sign enc self h))"
| "invoke enc self (M_verify h sig g) = snd (Key_verify enc self h sig g)"

fun invoke_all :: "encoding \<Rightarrow> key \<Rightarrow> invocation list \<Rightarrow> key \<times> ext_call list" where
  "invoke_all enc self [] = (self, [])"
| "invoke_all enc self (m # ms) =
     (case invoke enc self m of
        (self1, l) \<Rightarrow> (case invoke_all enc self1 ms of (self2, l1) \<Rightarrow> (self2, l @ l1)))"

fun is_Call_hash160 :: "ext_call \<Rightarrow> bool" where
  "is_Call_hash160 (Call_hash160 _) = True"
| "is_Call_hash160 _ = False"

fun is_Call_verify :: "ext_call \<Rightarrow> bool" where
  "is_Call_verify (Call_verify _ _ _) = True"
| "is_Call_verify _ = False"

text \<open>The number of memoization slots that are still unset.\<close>

definition unset_slots :: "key \<Rightarrow> nat" where
  "unset_slots self =
     (if self_hash160_uncompressed self = None then 1 else 0)
       + (if self_hash160_compressed self = None then 1 else 0)"

text \<open>
  What one call, or a sequence of calls, may do to an instance: every attribute but the
  two memoization slots is as before, a slot that held a value still holds that value,
  and each call of the \<^verbatim>\<open>hash160\<close> function filled one slot that was unset.
\<close>

definition step_ok :: "key \<Rightarrow> key \<Rightarrow> ext_call list \<Rightarrow> bool" where
  "step_ok k k1 l =
     (self_class k1 = self_class k
      \<and> self_prefer_uncompressed k1 = self_prefer_uncompressed k
      \<and> self_secret_exponent k1 = self_secret_exponent k
      \<and> self_generator k1 = self_generator k
      \<and> self_public_pair k1 = self_public_pair k
      \<and> (self_hash160_uncompressed k = None
           \<or> self_hash160_uncompressed k1 = self_hash160_uncompressed k)
      \<and> (self_hash160_compressed k = None
           \<or> self_hash160_compressed k1 = self_hash160_compressed k)
      \<and> length (filter is_Call_hash160 l) + unset_slots k1 = unset_slots k)"

section \<open>Notions of the specification\<close>

text \<open>
  The test of lines 85 and 86 that a public pair passes: both coordinates are present
  and the generator's \<^verbatim>\<open>contains_point\<close> accepts them.
\<close>

definition on_curve :: "generator \<Rightarrow> point \<Rightarrow> bool" where
  "on_curve g p = (case p of (Some x, Some y) \<Rightarrow> g_contains_point g x y | _ \<Rightarrow> False)"

text \<open>How many of \<^verbatim>\<open>secret_exponent\<close>, \<^verbatim>\<open>public_pair\<close>, \<^verbatim>\<open>hash160\<close> a caller supplies.\<close>

definition supplied :: "int option \<Rightarrow> point option \<Rightarrow> bytes option \<Rightarrow> nat" where
  "supplied secret_exponent public_pair h160 =
     length (filter (\<lambda>b. b) [secret_exponent \<noteq> None, public_pair \<noteq> None, h160 \<noteq> None])"

text \<open>
  The short hash a hash-only key stores: the content of whichever slot the
  constructor populated.
\<close>

definition stored_hash160 :: "key \<Rightarrow> bytes option" where
  "stored_hash160 self =
     (case self_hash160_compressed self of
        Some h \<Rightarrow> Some h
      | None \<Rightarrow> self_hash160_uncompressed self)"

text \<open>
  Verification as section 4.4 of the specification words it: resolve the generator,
  decode the signature, take the key's own public point or else the first recovered
  candidate whose compressed or uncompressed short hash equals the stored short hash,
  and run the verification primitive on it; no candidate means \<open>False\<close>.
\<close>

definition spec_verify ::
  "encoding \<Rightarrow> key \<Rightarrow> bytes \<Rightarrow> bytes \<Rightarrow> generator option \<Rightarrow> error + bool" where
  "spec_verify enc self h sig generator_arg =
     (case (case generator_arg of Some g \<Rightarrow> Some g | None \<Rightarrow> self_generator self) of
        None \<Rightarrow> Inl ValueError_generator_must_be_specified
      | Some g \<Rightarrow>
          (case sigdecode_der enc sig of
             None \<Rightarrow> Inl DerDecodeError
           | Some rs \<Rightarrow>
               (case self_public_pair self of
                  Some p \<Rightarrow> Inr (g_verify g p (from_bytes_32 enc h) rs)
                | None \<Rightarrow>
                    (case find (\<lambda>c. stored_hash160 self = Some (public_pair_to_hash160_sec enc c True)
                                  \<or> stored_hash160 self = Some (public_pair_to_hash160_sec enc c False))
                            (g_possible_public_pairs_for_signature g (from_bytes_32 enc h) rs) of
                       None \<Rightarrow> Inr False
                     | Some c \<Rightarrow> Inr (g_verify g c (from_bytes_32 enc h) rs)))))"

section \<open>A small instance of the collaborators\<close>

text \<open>
  A seven-element stand-in for the curve group and byte-level stand-ins for the
  encoders, on which the definitions above can be run. The point of the scalar \<open>e\<close>
  is \<open>(e mod 7, e\<^sup>2 mod 7)\<close>; a signature of \<open>val\<close> is \<open>((e + val) mod 7, (e * val) mod 7)\<close>,
  and recovery proposes the points of \<open>val - r\<close> and of \<open>r - val\<close>.
\<close>

definition toy_point :: "int \<Rightarrow> point" where
  "toy_point e = (Some (e mod 7), Some ((e * e) mod 7))"

definition toy_generator :: generator where
  "toy_generator =
     \<lparr> g_order = 7,
       g_mul = toy_point,
       g_contains_point = (\<lambda>x y. 0 \<le> x \<and> x < 7 \<and> y = (x * x) mod 7),
       g_sign = (\<lambda>e val. ((e + val) mod 7, (e * val) mod 7)),
       g_verify = (\<lambda>pubkey val rs.
          pubkey = toy_point (fst rs - val) \<and> snd rs = (((fst rs - val) mod 7) * val) mod 7),
       g_possible_public_pairs_for_signature = (\<lambda>val rs.
          [toy_point (val - fst rs), toy_point (fst rs - val)]) \<rparr>"

definition toy_sec :: "point \<Rightarrow> bool \<Rightarrow> bytes" where
  "toy_sec p compressed =
     (case p of
        (Some x, Some y) \<Rightarrow>
          if compressed then [if even y then 2 else 3, word_of_int x]
          else [4, word_of_int x, word_of_int y]
      | _ \<Rightarrow> [])"

definition toy_encoding :: encoding where
  "toy_encoding =
     \<lparr> from_bytes_32 = (\<lambda>h. foldl (\<lambda>a b. 256 * a + uint b) 0 h),
       hash160 = rev,
       hash160_sec_to_bitcoin_address = (\<lambda>h p. map (\<lambda>w. if w < 128 then CHR ''a'' else CHR ''b'') (p @ h)),
       public_pair_to_sec = toy_sec,
       public_pair_to_hash160_sec = (\<lambda>p compressed. rev (toy_sec p compressed)),
       secret_exponent_to_wif = (\<lambda>e compressed p. if compressed then ''K'' else ''5''),
       b2h = map (\<lambda>w. if w < 128 then CHR ''0'' else CHR ''f''),
       sigencode_der = (\<lambda>r s. [48, word_of_int r, word_of_int s]),
       sigdecode_der = (\<lambda>sig.
          case sig of [t, r, s] \<Rightarrow> if t = 48 then Some (uint r, uint s) else None | _ \<Rightarrow> None) \<rparr>"

text \<open>The class \<^verbatim>\<open>Key\<close> itself: no network prefixes.\<close>

definition Key_class :: key_class where
  "Key_class = \<lparr> wif_prefix = None, sec_prefix = None, address_prefix = None \<rparr>"

text \<open>
  \<^verbatim>\<open>Key(secret_exponent=3, generator=g)\<close>, its \<^verbatim>\<open>public_copy()\<close>, and the hash-only keys
  \<^verbatim>\<open>Key(hash160=H, is_compressed=True, prefer_uncompressed=True)\<close> with and without a
  generator, where \<open>H\<close> is the short hash of the compressed encoding of the point of 3.
\<close>

definition toy_private_key :: key where
  "toy_private_key =
     \<lparr> self_class = Key_class, self_prefer_uncompressed = False,
       self_secret_exponent = Some 3, self_generator = Some toy_generator,
       self_public_pair = Some (toy_point 3),
       self_hash160_uncompressed = None, self_hash160_compressed = None \<rparr>"

definition toy_public_copy :: key where
  "toy_public_copy =
     \<lparr> self_class = Key_class, self_prefer_uncompressed = False,
       self_secret_exponent = None, self_generator = None,
       self_public_pair = Some (toy_point 3),
       self_hash160_uncompressed = None, self_hash160_compressed = None \<rparr>"

definition toy_mismatched_key :: key where
  "toy_mismatched_key =
     \<lparr> self_class = Key_class, self_prefer_uncompressed = True,
       self_secret_exponent = None, self_generator = Some toy_generator,
       self_public_pair = None,
       self_hash160_uncompressed = None, self_hash160_compressed = Some [3, 2] \<rparr>"

definition toy_mismatched_key_no_generator :: key where
  "toy_mismatched_key_no_generator =
     \<lparr> self_class = Key_class, self_prefer_uncompressed = True,
       self_secret_exponent = None, self_generator = None,
       self_public_pair = None,
       self_hash160_uncompressed = None, self_hash160_compressed = Some [3, 2] \<rparr>"

section \<open>Construction: the checks of \<^verbatim>\<open>__init__\<close>\<close>

lemmas init_defs = Key_init_def count_None_def truthy_int_def truthy_obj_def truthy_seq_def
  init_public_pair_def init_check_public_pair_def

lemmas toy_defs = toy_generator_def toy_point_def toy_encoding_def toy_sec_def Key_class_def

lemma init_public_pair_not_arity: "init_public_pair k \<noteq> Inl ValueError_exactly_one"
  by (simp add: init_public_pair_def split: option.splits prod.splits)

lemma init_check_not_arity: "init_check_public_pair k \<noteq> Inl ValueError_exactly_one"
  by (simp add: init_check_public_pair_def split: option.splits prod.splits)

lemma init_check_not_secret: "init_check_public_pair k \<noteq> Inl InvalidSecretExponentError"
  by (simp add: init_check_public_pair_def split: option.splits prod.splits)

text \<open>
  Claim C5. The constructor raises the arity error (\<^verbatim>\<open>ValueError("exactly one of ...")\<close>)
  exactly when the number of values supplied among \<^verbatim>\<open>secret_exponent\<close>, \<^verbatim>\<open>public_pair\<close>
  and \<^verbatim>\<open>hash160\<close> is not one: none, two or three supplied fail with it, and exactly
  one supplied never does, whatever the other arguments are.
\<close>

theorem init_arity_error_iff:
  "(Key_init cls secret_exponent generator public_pair h160 prefer_uncompressed is_compressed
      is_pay_to_script = Inl ValueError_exactly_one)
   = (supplied secret_exponent public_pair h160 \<noteq> 1)"
proof (cases "count_None secret_exponent public_pair h160 = 2")
  case False
  then show ?thesis
    by (auto simp: Key_init_def Let_def supplied_def count_None_def split: if_splits)
next
  case True
  then have one: "supplied secret_exponent public_pair h160 = 1"
    by (auto simp: supplied_def count_None_def split: if_splits)
  have "Key_init cls secret_exponent generator public_pair h160 prefer_uncompressed is_compressed
      is_pay_to_script \<noteq> Inl ValueError_exactly_one"
    using True init_public_pair_not_arity init_check_not_arity
    by (auto simp: Key_init_def Let_def split: sum.splits)
  with one show ?thesis by simp
qed

text \<open>
  Claim C6 says that a secret exponent supplied without a generator always fails with
  the missing-generator error, the value 0 included. Line 61 tests the truth value of
  \<^verbatim>\<open>secret_exponent\<close>, and 0 is false in Python: the constructor goes on to line 78
  (which tests \<^verbatim>\<open>is not None\<close>) and raises \<^verbatim>\<open>InvalidSecretExponentError\<close> instead.
  The constructor at the secret exponent 0 with no generator:
\<close>

theorem init_zero_secret_without_generator:
  "Key_init cls (Some 0) None None None prefer_uncompressed is_compressed is_pay_to_script
     = Inl InvalidSecretExponentError"
  by (simp add: init_defs)

text \<open>Every other secret exponent without a generator does raise the missing-generator error.\<close>

lemma init_nonzero_secret_without_generator:
  "e \<noteq> 0 \<Longrightarrow>
   Key_init cls (Some e) None None None prefer_uncompressed is_compressed is_pay_to_script
     = Inl ValueError_generator_not_specified"
  by (simp add: init_defs)

text \<open>
  Claim C4 as stated: \<^verbatim>\<open>InvalidSecretExponentError\<close> is raised if and only if a secret
  exponent outside \<open>[1, order)\<close> is supplied. With the secret exponent 0, a generator and
  a public pair supplied together, the arity check of line 59 raises first.
\<close>

theorem init_invalid_secret_iff_counterexample:
  "\<not> ((Key_init Key_class (Some 0) (Some toy_generator) (Some (Some 1, Some 1)) None None None
          False = Inl InvalidSecretExponentError)
        = ((0::int) < 1 \<or> g_order toy_generator \<le> 0))"
  by (simp add: Key_init_def count_None_def)

text \<open>
  Claim C4, amended. \<^verbatim>\<open>InvalidSecretExponentError\<close> is raised only when a secret exponent
  is the one value supplied and it is below 1 or, with a generator, at least the
  generator's order (so a secret exponent inside the range never raises it); and when a
  secret exponent and a generator are supplied, and neither a public pair nor a hash160,
  it is raised if and only if the secret exponent lies outside \<open>[1, order)\<close>.
\<close>

theorem init_invalid_secret_iff:
  "(Key_init cls secret_exponent generator public_pair h prefer_uncompressed is_compressed
      is_pay_to_script = Inl InvalidSecretExponentError
    \<longrightarrow> (\<exists>e. secret_exponent = Some e \<and> public_pair = None \<and> h = None
           \<and> (e < 1 \<or> (\<exists>g. generator = Some g \<and> g_order g \<le> e))))
   \<and> ((Key_init cls (Some e) (Some g) None None prefer_uncompressed is_compressed
          is_pay_to_script = Inl InvalidSecretExponentError)
        = (e < 1 \<or> g_order g \<le> e))"
proof
  show "Key_init cls secret_exponent generator public_pair h prefer_uncompressed is_compressed
      is_pay_to_script = Inl InvalidSecretExponentError
    \<longrightarrow> (\<exists>e. secret_exponent = Some e \<and> public_pair = None \<and> h = None
           \<and> (e < 1 \<or> (\<exists>g. generator = Some g \<and> g_order g \<le> e)))"
    using init_check_not_secret
    by (auto simp: Key_init_def Let_def count_None_def init_public_pair_def
        split: if_splits sum.splits option.splits)
next
  show "(Key_init cls (Some e) (Some g) None None prefer_uncompressed is_compressed
          is_pay_to_script = Inl InvalidSecretExponentError)
        = (e < 1 \<or> g_order g \<le> e)"
    using init_check_not_secret
    by (auto simp: Key_init_def Let_def count_None_def init_public_pair_def truthy_int_def
        truthy_obj_def truthy_seq_def split: if_splits sum.splits option.splits)
qed

theorem init_invalid_secret_iff_witness:
  "Key_init Key_class (Some 7) (Some toy_generator) None None None None False
     = Inl InvalidSecretExponentError
   \<and> (\<exists>e. Some (7::int) = Some e \<and> (None :: point option) = None \<and> (None :: bytes option) = None
         \<and> (e < 1 \<or> (\<exists>g. Some toy_generator = Some g \<and> g_order g \<le> e)))"
  using init_invalid_secret_iff [where cls = Key_class and secret_exponent = "Some 7"
      and generator = "Some toy_generator" and public_pair = None and h = None
      and prefer_uncompressed = None and is_compressed = None and is_pay_to_script = False
      and e = 7 and g = toy_generator]
  by (simp add: toy_generator_def)

text \<open>
  Claim C3. For a secret exponent \<open>e\<close> with \<open>1 \<le> e < order\<close>, and a generator whose
  multiple \<open>e * g\<close> is a point with both coordinates that \<^verbatim>\<open>contains_point\<close> accepts (what
  the curve group guarantees for these scalars), \<^verbatim>\<open>Key(secret_exponent=e, generator=g)\<close>
  succeeds, and the key's \<^verbatim>\<open>public_pair()\<close> is \<open>e * g\<close>, which passes the membership test.
\<close>

theorem init_secret_public_pair:
  assumes "1 \<le> e" and "e < g_order g" and "on_curve g (g_mul g e)"
  shows "\<exists>k. Key_init cls (Some e) (Some g) None None prefer_uncompressed is_compressed
                is_pay_to_script = Inr k
             \<and> Key_public_pair k = Some (g_mul g e)
             \<and> Key_secret_exponent k = Some e
             \<and> on_curve g (g_mul g e)"
  using assms
  by (auto simp: init_defs Let_def on_curve_def Key_public_pair_def Key_secret_exponent_def
      split: option.splits prod.splits)

theorem init_secret_public_pair_witness:
  "(1::int) \<le> 3 \<and> 3 < g_order toy_generator \<and> on_curve toy_generator (g_mul toy_generator 3)
   \<and> (\<exists>k. Key_init Key_class (Some 3) (Some toy_generator) None None None None False = Inr k
          \<and> Key_public_pair k = Some (g_mul toy_generator 3)
          \<and> Key_secret_exponent k = Some 3
          \<and> on_curve toy_generator (g_mul toy_generator 3))"
proof -
  have h1: "(1::int) \<le> 3" by simp
  have h2: "3 < g_order toy_generator" by (simp add: toy_generator_def)
  have h3: "on_curve toy_generator (g_mul toy_generator 3)"
    by (simp add: toy_generator_def toy_point_def on_curve_def)
  show ?thesis
    using h1 h2 h3 init_secret_public_pair [OF h1 h2 h3, of Key_class None None False]
    by simp
qed

text \<open>
  The membership test is what decides: with a scalar in range whose multiple fails the
  test, the constructor raises \<^verbatim>\<open>InvalidPublicPairError\<close>; and whenever a constructor call
  with a generator succeeds, a known public pair has passed the test.
\<close>

lemma init_secret_off_curve:
  assumes "1 \<le> e" and "e < g_order g" and "\<not> on_curve g (g_mul g e)"
  shows "Key_init cls (Some e) (Some g) None None prefer_uncompressed is_compressed
           is_pay_to_script = Inl InvalidPublicPairError"
  using assms
  by (auto simp: init_defs Let_def on_curve_def split: option.splits prod.splits)

lemma init_public_pair_on_curve:
  assumes "Key_init cls secret_exponent (Some g) public_pair h160 prefer_uncompressed
             is_compressed is_pay_to_script = Inr k"
    and "Key_public_pair k = Some p"
  shows "on_curve g p"
  using assms
  by (auto simp: Key_init_def Let_def init_public_pair_def init_check_public_pair_def
      on_curve_def Key_public_pair_def
      split: if_splits sum.splits option.splits prod.splits)

section \<open>The short hash of a hash-only key\<close>

lemmas hash160_defs = Key_hash160_def Key_use_uncompressed_def Key_public_pair_def
  hash160_of_sec_def Key_sec_def

text \<open>
  Claim C7. A key constructed from a hash160 alone has no public pair, and
  \<^verbatim>\<open>hash160(use_uncompressed)\<close> returns the slot of the requested variant as it is,
  leaves the instance as it was and calls no collaborator (nothing is derived). The
  constructor fills the compressed slot when \<^verbatim>\<open>is_compressed\<close> is true and the
  uncompressed slot otherwise, so the key answers with its hash for the variant it was
  constructed with and with \<^verbatim>\<open>None\<close> for the other one.
\<close>

theorem hash_only_hash160:
  assumes "Key_init cls None generator None (Some h) prefer_uncompressed is_compressed
             is_pay_to_script = Inr k"
  shows "Key_public_pair k = None
     \<and> Key_hash160 enc k use_uncompressed
         = (Inr (if Key_use_uncompressed k use_uncompressed then self_hash160_uncompressed k
                 else self_hash160_compressed k), k, [])
     \<and> self_hash160_compressed k = (if is_compressed = Some True \<and> h \<noteq> [] then Some h else None)
     \<and> self_hash160_uncompressed k = (if is_compressed \<noteq> Some True \<and> h \<noteq> [] then Some h else None)
     \<and> Key_hash160 enc k (Some False)
         = (Inr (if is_compressed = Some True \<and> h \<noteq> [] then Some h else None), k, [])
     \<and> Key_hash160 enc k (Some True)
         = (Inr (if is_compressed \<noteq> Some True \<and> h \<noteq> [] then Some h else None), k, [])"
proof -
  from assms have pp: "self_public_pair k = None"
    by (auto simp: init_defs Let_def split: if_splits option.splits)
  from assms have slots:
    "self_hash160_compressed k = (if is_compressed = Some True \<and> h \<noteq> [] then Some h else None)"
    "self_hash160_uncompressed k = (if is_compressed \<noteq> Some True \<and> h \<noteq> [] then Some h else None)"
    by (auto simp: init_defs Let_def split: if_splits option.splits)
  show ?thesis
    using pp slots by (simp add: hash160_defs)
qed

theorem hash_only_hash160_witness:
  "Key_init Key_class None None None (Some [3, 2]) (Some True) (Some True) False
     = Inr toy_mismatched_key_no_generator
   \<and> Key_public_pair toy_mismatched_key_no_generator = None
   \<and> Key_hash160 toy_encoding toy_mismatched_key_no_generator (Some False)
       = (Inr (Some [3, 2]), toy_mismatched_key_no_generator, [])
   \<and> Key_hash160 toy_encoding toy_mismatched_key_no_generator (Some True)
       = (Inr None, toy_mismatched_key_no_generator, [])"
proof -
  have c: "Key_init Key_class None None None (Some [3, 2]) (Some True) (Some True) False
             = Inr toy_mismatched_key_no_generator"
    by (simp add: init_defs toy_mismatched_key_no_generator_def)
  show ?thesis
    using c hash_only_hash160 [OF c, of toy_encoding None] by simp
qed

section \<open>\<^verbatim>\<open>public_copy\<close>\<close>

text \<open>What a successful construction from a secret exponent leaves in the instance.\<close>

lemma init_secret_fields:
  assumes "Key_init cls (Some e) generator None None prefer_uncompressed is_compressed
             is_pay_to_script = Inr k"
  shows "\<exists>g x y. generator = Some g \<and> 1 \<le> e \<and> e < g_order g \<and> g_mul g e = (Some x, Some y)
           \<and> k = \<lparr> self_class = cls,
                   self_prefer_uncompressed =
                     (case prefer_uncompressed of
                        None \<Rightarrow> \<not> (case is_compressed of None \<Rightarrow> True | Some b \<Rightarrow> b)
                      | Some b \<Rightarrow> b),
                   self_secret_exponent = Some e, self_generator = Some g,
                   self_public_pair = Some (Some x, Some y),
                   self_hash160_uncompressed = None, self_hash160_compressed = None \<rparr>"
  using assms
  by (auto simp: init_defs Let_def split: if_splits option.splits prod.splits sum.splits)

text \<open>
  Claim C8 as stated: the copy of a private key keeps which short-hash slot was
  populated. The private key of the scalar 3 memoizes its compressed short hash on the
  first \<^verbatim>\<open>hash160()\<close>; its \<^verbatim>\<open>public_copy()\<close> has both slots unset.
\<close>

theorem public_copy_slots_counterexample:
  "Key_init Key_class (Some 3) (Some toy_generator) None None None None False = Inr toy_private_key
   \<and> Key_hash160 toy_encoding toy_private_key None
       = (Inr (Some [3, 2]), toy_private_key\<lparr>self_hash160_compressed := Some [3, 2]\<rparr>,
          [Call_public_pair_to_sec (toy_point 3) True, Call_hash160 [2, 3]])
   \<and> Key_public_copy (toy_private_key\<lparr>self_hash160_compressed := Some [3, 2]\<rparr>) = Inr toy_public_copy
   \<and> self_hash160_compressed (toy_private_key\<lparr>self_hash160_compressed := Some [3, 2]\<rparr>) \<noteq> None
   \<and> self_hash160_compressed toy_public_copy = None"
  by (simp add: init_defs toy_defs toy_private_key_def toy_public_copy_def hash160_defs
      Key_public_copy_def Key_secret_exponent_def)

text \<open>
  Claim C8, amended. \<^verbatim>\<open>public_copy\<close> of a key with no secret exponent returns the key
  itself. Of a key constructed from a secret exponent, whatever its two memoization slots
  hold by then, it returns a new key of the same class with no secret exponent and no
  generator, the same public pair and the same compression preference, and with both
  short-hash slots unset.
\<close>

theorem public_copy_result:
  "(Key_secret_exponent k = None \<longrightarrow> Key_public_copy k = Inr k)
   \<and> (Key_init cls (Some e) generator None None prefer_uncompressed is_compressed
         is_pay_to_script = Inr k0 \<longrightarrow>
       Key_public_copy (k0\<lparr>self_hash160_uncompressed := a, self_hash160_compressed := b\<rparr>)
         = Inr \<lparr> self_class = cls, self_prefer_uncompressed = self_prefer_uncompressed k0,
                 self_secret_exponent = None, self_generator = None,
                 self_public_pair = self_public_pair k0,
                 self_hash160_uncompressed = None, self_hash160_compressed = None \<rparr>
       \<and> self_public_pair k0 \<noteq> None)"
proof (intro conjI impI)
  assume "Key_secret_exponent k = None"
  then show "Key_public_copy k = Inr k" by (simp add: Key_public_copy_def)
next
  assume a: "Key_init cls (Some e) generator None None prefer_uncompressed is_compressed
         is_pay_to_script = Inr k0"
  from init_secret_fields [OF a] obtain g x y where
    k0: "k0 = \<lparr> self_class = cls,
                   self_prefer_uncompressed =
                     (case prefer_uncompressed of
                        None \<Rightarrow> \<not> (case is_compressed of None \<Rightarrow> True | Some b \<Rightarrow> b)
                      | Some b \<Rightarrow> b),
                   self_secret_exponent = Some e, self_generator = Some g,
                   self_public_pair = Some (Some x, Some y),
                   self_hash160_uncompressed = None, self_hash160_compressed = None \<rparr>"
    by blast
  show "Key_public_copy (k0\<lparr>self_hash160_uncompressed := a, self_hash160_compressed := b\<rparr>)
         = Inr \<lparr> self_class = cls, self_prefer_uncompressed = self_prefer_uncompressed k0,
                 self_secret_exponent = None, self_generator = None,
                 self_public_pair = self_public_pair k0,
                 self_hash160_uncompressed = None, self_hash160_compressed = None \<rparr>"
    by (simp add: k0 Key_public_copy_def Key_secret_exponent_def Key_public_pair_def init_defs)
  show "self_public_pair k0 \<noteq> None" by (simp add: k0)
qed

theorem public_copy_result_witness:
  "Key_secret_exponent toy_public_copy = None
   \<and> Key_public_copy toy_public_copy = Inr toy_public_copy
   \<and> Key_init Key_class (Some 3) (Some toy_generator) None None None None False
       = Inr toy_private_key
   \<and> Key_public_copy (toy_private_key\<lparr>self_hash160_uncompressed := None,
                                        self_hash160_compressed := Some [3, 2]\<rparr>)
       = Inr toy_public_copy"
proof -
  have h1: "Key_secret_exponent toy_public_copy = None"
    by (simp add: Key_secret_exponent_def toy_public_copy_def)
  have h2: "Key_init Key_class (Some 3) (Some toy_generator) None None None None False
              = Inr toy_private_key"
    by (simp add: init_defs toy_generator_def toy_point_def toy_private_key_def)
  have e: "\<lparr> self_class = Key_class,
             self_prefer_uncompressed = self_prefer_uncompressed toy_private_key,
             self_secret_exponent = None, self_generator = None,
             self_public_pair = self_public_pair toy_private_key,
             self_hash160_uncompressed = None, self_hash160_compressed = None \<rparr> = toy_public_copy"
    by (simp add: toy_private_key_def toy_public_copy_def)
  show ?thesis
    using h1 h2 e
      public_copy_result [where k = toy_public_copy and cls = Key_class and e = 3
        and generator = "Some toy_generator" and prefer_uncompressed = None
        and is_compressed = None and is_pay_to_script = False and ?k0.0 = toy_private_key
        and a = None and b = "Some [3, 2]"]
    by simp
qed

section \<open>Signing and verifying with a private key\<close>

text \<open>
  Claim C2. For a key constructed from a secret exponent \<open>e\<close> and a generator \<open>g\<close>, and a
  message hash \<open>h\<close>: \<^verbatim>\<open>sign(h)\<close> returns the DER encoding of the pair \<open>(r, s)\<close> that the
  generator signs \<open>h\<close> with, and \<^verbatim>\<open>verify(h, sign(h))\<close> returns \<^verbatim>\<open>True\<close>. Verification
  calls the verification primitive once, on the key's own public pair \<open>e * g\<close>, and never
  asks for recovered candidates. The collaborators are taken at their contracts: DER
  decoding inverts DER encoding on \<open>(r, s)\<close>, and the generator accepts its own signature
  under the public point of the signing scalar.
\<close>

theorem sign_then_verify:
  assumes "Key_init cls (Some e) (Some g) None None prefer_uncompressed is_compressed
             is_pay_to_script = Inr k"
    and "g_sign g e (from_bytes_32 enc h) = (r, s)"
    and "sigdecode_der enc (sigencode_der enc r s) = Some (r, s)"
    and "g_verify g (g_mul g e) (from_bytes_32 enc h) (r, s)"
  shows "fst (Key_sign enc k h) = Inr (sigencode_der enc r s)
     \<and> Key_verify enc k h (sigencode_der enc r s) None
         = (Inr True, k,
            [Call_from_bytes_32 h, Call_sigdecode_der (sigencode_der enc r s),
             Call_verify (g_mul g e) (from_bytes_32 enc h) (r, s)])"
proof -
  from init_secret_fields [OF assms(1)] have
    k: "self_secret_exponent k = Some e" "self_generator k = Some g"
       "self_public_pair k = Some (g_mul g e)"
    by auto
  show ?thesis
    using k assms(2-4)
    by (simp add: Key_sign_def Key_verify_def Key_secret_exponent_def Key_public_pair_def
        truthy_obj_def)
qed

theorem sign_then_verify_witness:
  "Key_init Key_class (Some 3) (Some toy_generator) None None None None False = Inr toy_private_key
   \<and> g_sign toy_generator 3 (from_bytes_32 toy_encoding [1, 2]) = (2, 4)
   \<and> sigdecode_der toy_encoding (sigencode_der toy_encoding 2 4) = Some (2, 4)
   \<and> g_verify toy_generator (g_mul toy_generator 3) (from_bytes_32 toy_encoding [1, 2]) (2, 4)
   \<and> fst (Key_sign toy_encoding toy_private_key [1, 2]) = Inr (sigencode_der toy_encoding 2 4)
   \<and> Key_verify toy_encoding toy_private_key [1, 2] (sigencode_der toy_encoding 2 4) None
       = (Inr True, toy_private_key,
          [Call_from_bytes_32 [1, 2], Call_sigdecode_der (sigencode_der toy_encoding 2 4),
           Call_verify (g_mul toy_generator 3) (from_bytes_32 toy_encoding [1, 2]) (2, 4)])"
proof -
  have h1: "Key_init Key_class (Some 3) (Some toy_generator) None None None None False
              = Inr toy_private_key"
    by (simp add: init_defs toy_generator_def toy_point_def toy_private_key_def)
  have h2: "g_sign toy_generator 3 (from_bytes_32 toy_encoding [1, 2]) = (2, 4)"
    by (simp add: toy_generator_def toy_encoding_def)
  have h3: "sigdecode_der toy_encoding (sigencode_der toy_encoding 2 4) = Some (2, 4)"
    by (simp add: toy_encoding_def)
  have h4: "g_verify toy_generator (g_mul toy_generator 3) (from_bytes_32 toy_encoding [1, 2]) (2, 4)"
    by (simp add: toy_generator_def toy_encoding_def toy_point_def)
  show ?thesis
    using h1 h2 h3 h4 sign_then_verify [OF h1 h2 h3 h4] by simp
qed

section \<open>Verifying with a hash-only key\<close>

text \<open>The candidate loop: its result is the first match, and it never verifies.\<close>

lemma verify_candidates_find:
  "fst (verify_candidates enc h160 cands)
     = find (\<lambda>c. h160 = Some (public_pair_to_hash160_sec enc c True)
                \<or> h160 = Some (public_pair_to_hash160_sec enc c False)) cands"
  by (induction cands) (auto split: prod.splits)

lemma verify_candidates_find_dest:
  "verify_candidates enc h160 cands = (r, l) \<Longrightarrow>
   find (\<lambda>c. h160 = Some (public_pair_to_hash160_sec enc c True)
              \<or> h160 = Some (public_pair_to_hash160_sec enc c False)) cands = r"
  using verify_candidates_find [of enc h160 cands] by simp

lemma verify_candidates_no_verify:
  "\<not> list_ex is_Call_verify (snd (verify_candidates enc h160 cands))"
  by (induction cands) (auto split: prod.splits)

lemma verify_candidates_None:
  "fst (verify_candidates enc None cands) = None"
  by (simp add: verify_candidates_find find_None_iff)

text \<open>
  What \<^verbatim>\<open>verify\<close> does for a key without a public pair, once a generator is resolved and
  the signature decodes: it takes the first recovered candidate whose compressed or
  uncompressed short hash equals what \<^verbatim>\<open>self.hash160()\<close> returns, and verifies against it;
  with no such candidate it returns \<^verbatim>\<open>False\<close> and the verification primitive is not called.
\<close>

lemma verify_hash_only:
  assumes "Key_public_pair k = None"
    and "(if truthy_obj generator_arg then generator_arg else self_generator k) = Some g"
    and "sigdecode_der enc sig = Some rs"
  shows "\<exists>l. Key_verify enc k h sig generator_arg
           = ((case find (\<lambda>c. fst (Key_hash160 enc k None)
                                = Inr (Some (public_pair_to_hash160_sec enc c True))
                              \<or> fst (Key_hash160 enc k None)
                                = Inr (Some (public_pair_to_hash160_sec enc c False)))
                     (g_possible_public_pairs_for_signature g (from_bytes_32 enc h) rs) of
                 None \<Rightarrow> (Inr False, k, l)
               | Some c \<Rightarrow>
                   (Inr (g_verify g c (from_bytes_32 enc h) rs), k,
                    l @ [Call_verify c (from_bytes_32 enc h) rs])))
         \<and> \<not> list_ex is_Call_verify l"
proof -
  let ?h160 = "if self_prefer_uncompressed k then self_hash160_uncompressed k
               else self_hash160_compressed k"
  let ?cands = "g_possible_public_pairs_for_signature g (from_bytes_32 enc h) rs"
  have hh: "Key_hash160 enc k None = (Inr ?h160, k, [])"
    using assms(1) by (simp add: Key_hash160_def Key_use_uncompressed_def)
  obtain r l2 where vc: "verify_candidates enc ?h160 ?cands = (r, l2)"
    by (cases "verify_candidates enc ?h160 ?cands") auto
  have r: "r = find (\<lambda>c. ?h160 = Some (public_pair_to_hash160_sec enc c True)
                       \<or> ?h160 = Some (public_pair_to_hash160_sec enc c False)) ?cands"
    using verify_candidates_find [of enc ?h160 ?cands] vc by simp
  have l2: "\<not> list_ex is_Call_verify l2"
    using verify_candidates_no_verify [of enc ?h160 ?cands] vc by simp
  show ?thesis
    using assms hh vc l2 r [symmetric]
    by (cases r) (auto simp: Key_verify_def Let_def)
qed

text \<open>
  Whenever the compression preference selects the slot that holds the stored short hash
  (as it does unless \<^verbatim>\<open>is_compressed\<close> and \<^verbatim>\<open>prefer_uncompressed\<close> are passed in
  contradiction), \<^verbatim>\<open>verify\<close> returns what the specification's wording gives.
\<close>

lemma verify_refines_spec:
  assumes "Key_public_pair k = None \<longrightarrow>
             (if self_prefer_uncompressed k then self_hash160_uncompressed k
              else self_hash160_compressed k) = stored_hash160 k"
  shows "fst (Key_verify enc k h sig generator_arg) = spec_verify enc k h sig generator_arg"
proof (cases "Key_public_pair k")
  case (Some p)
  then show ?thesis
    by (cases generator_arg)
      (auto simp: Key_verify_def spec_verify_def Key_public_pair_def truthy_obj_def Let_def
        split: option.splits)
next
  case None
  let ?h160 = "stored_hash160 k"
  have hh: "Key_hash160 enc k None = (Inr ?h160, k, [])"
    using assms None
    by (auto simp: Key_hash160_def Key_use_uncompressed_def split: if_splits)
  have gen: "(if truthy_obj generator_arg then generator_arg else self_generator k)
               = (case generator_arg of Some g \<Rightarrow> Some g | None \<Rightarrow> self_generator k)"
    by (cases generator_arg) (auto simp: truthy_obj_def)
  show ?thesis
    using None hh
    unfolding Key_verify_def spec_verify_def gen
    by (auto simp: Key_public_pair_def Let_def dest!: verify_candidates_find_dest
        split: option.splits prod.splits)
qed

text \<open>
  Claim C1 says that a hash-only key compares each recovered candidate with the short
  hash it stores, and verifies against the first match. \<^verbatim>\<open>verify\<close> reads the hash with
  \<^verbatim>\<open>self.hash160()\<close>, the slot of the key's compression preference. For the key
  \<^verbatim>\<open>Key(hash160=H, is_compressed=True, prefer_uncompressed=True, generator=g)\<close>, where \<open>H\<close>
  is the compressed short hash of the point of the scalar 3, and the signature of that
  scalar over the hash \<open>[1, 2]\<close>: the second recovered candidate is that point, its
  compressed short hash is the stored \<open>H\<close>, the primitive accepts the signature under it,
  and \<^verbatim>\<open>verify\<close> returns \<^verbatim>\<open>False\<close> where the specification's wording gives \<^verbatim>\<open>True\<close>.
\<close>

theorem mismatched_verify_rejects_matching_candidate:
  "Key_init Key_class None (Some toy_generator) None (Some [3, 2]) (Some True) (Some True) False
     = Inr toy_mismatched_key
   \<and> stored_hash160 toy_mismatched_key
       = Some (public_pair_to_hash160_sec toy_encoding (toy_point 3) True)
   \<and> fst (Key_sign toy_encoding toy_private_key [1, 2]) = Inr [48, 2, 4]
   \<and> g_possible_public_pairs_for_signature toy_generator (from_bytes_32 toy_encoding [1, 2]) (2, 4)
       = [toy_point 4, toy_point 3]
   \<and> g_verify toy_generator (toy_point 3) (from_bytes_32 toy_encoding [1, 2]) (2, 4)
   \<and> fst (Key_verify toy_encoding toy_mismatched_key [1, 2] [48, 2, 4] None) = Inr False
   \<and> spec_verify toy_encoding toy_mismatched_key [1, 2] [48, 2, 4] None = Inr True"
  by (simp add: init_defs toy_defs toy_mismatched_key_def toy_private_key_def stored_hash160_def
      Key_verify_def Key_sign_def Key_secret_exponent_def spec_verify_def hash160_defs)

text \<open>
  Claim C10 as stated: such a key's \<^verbatim>\<open>verify(h, sig)\<close> returns \<^verbatim>\<open>False\<close> for every
  DER-decodable signature. Constructed without a generator and called without one,
  \<^verbatim>\<open>verify\<close> raises \<^verbatim>\<open>ValueError("generator must be specified")\<close> at line 234.
\<close>

theorem mismatched_verify_counterexample:
  "Key_init Key_class None None None (Some [3, 2]) (Some True) (Some True) False
     = Inr toy_mismatched_key_no_generator
   \<and> sigdecode_der toy_encoding [48, 2, 4] = Some (2, 4)
   \<and> fst (Key_verify toy_encoding toy_mismatched_key_no_generator [1, 2] [48, 2, 4] None)
       = Inl ValueError_generator_must_be_specified"
  by (simp add: init_defs toy_mismatched_key_no_generator_def Key_verify_def toy_encoding_def)

text \<open>
  Claim C10, amended. For a hash-only key constructed with \<^verbatim>\<open>is_compressed\<close> and
  \<^verbatim>\<open>prefer_uncompressed\<close> both true or both false, \<^verbatim>\<open>hash160()\<close> returns \<^verbatim>\<open>None\<close>; and for
  every message hash and every DER-decodable signature, \<^verbatim>\<open>verify\<close> returns \<^verbatim>\<open>False\<close>
  without calling the verification primitive whenever a generator is available (from
  the call or from the key), and raises the missing-generator error otherwise.
\<close>

theorem mismatched_verify:
  assumes "Key_init cls None generator None (Some h160) (Some c) (Some c) is_pay_to_script = Inr k"
    and "sigdecode_der enc sig = Some rs"
  shows "Key_hash160 enc k None = (Inr None, k, [])
     \<and> fst (Key_verify enc k h sig generator_arg)
         = (if generator = None \<and> generator_arg = None
            then Inl ValueError_generator_must_be_specified else Inr False)
     \<and> fst (snd (Key_verify enc k h sig generator_arg)) = k
     \<and> \<not> list_ex is_Call_verify (snd (snd (Key_verify enc k h sig generator_arg)))"
proof -
  from assms(1) have k:
    "self_public_pair k = None" "self_generator k = generator"
    "self_prefer_uncompressed k = c"
    "self_hash160_compressed k = (if c \<and> h160 \<noteq> [] then Some h160 else None)"
    "self_hash160_uncompressed k = (if \<not> c \<and> h160 \<noteq> [] then Some h160 else None)"
    by (auto simp: init_defs Let_def split: if_splits option.splits)
  have hh: "Key_hash160 enc k None = (Inr None, k, [])"
    using k by (simp add: hash160_defs)
  show ?thesis
  proof (cases "generator = None \<and> generator_arg = None")
    case True
    then have "Key_verify enc k h sig generator_arg
                 = (Inl ValueError_generator_must_be_specified, k, [])"
      using k by (simp add: Key_verify_def truthy_obj_def)
    with True hh show ?thesis by simp
  next
    case False
    then obtain g where g:
      "(if truthy_obj generator_arg then generator_arg else self_generator k) = Some g"
      using k(2) by (cases generator_arg; cases generator) (auto simp: truthy_obj_def)
    let ?cands = "g_possible_public_pairs_for_signature g (from_bytes_32 enc h) rs"
    obtain r l where vc: "verify_candidates enc None ?cands = (r, l)"
      by (cases "verify_candidates enc None ?cands") auto
    have r: "r = None"
      using verify_candidates_None [of enc ?cands] vc by simp
    have l: "\<not> list_ex is_Call_verify l"
      using verify_candidates_no_verify [of enc None ?cands] vc by simp
    show ?thesis
      using False g assms(2) vc r l hh k(1)
      by (simp add: Key_verify_def Key_public_pair_def Let_def)
  qed
qed

theorem mismatched_verify_witness:
  "Key_init Key_class None (Some toy_generator) None (Some [3, 2]) (Some True) (Some True) False
     = Inr toy_mismatched_key
   \<and> sigdecode_der toy_encoding [48, 2, 4] = Some (2, 4)
   \<and> Key_hash160 toy_encoding toy_mismatched_key None = (Inr None, toy_mismatched_key, [])
   \<and> fst (Key_verify toy_encoding toy_mismatched_key [1, 2] [48, 2, 4] None) = Inr False"
proof -
  have h1: "Key_init Key_class None (Some toy_generator) None (Some [3, 2]) (Some True)
              (Some True) False = Inr toy_mismatched_key"
    by (simp add: init_defs toy_mismatched_key_def)
  have h2: "sigdecode_der toy_encoding [48, 2, 4] = Some (2, 4)"
    by (simp add: toy_encoding_def)
  show ?thesis
    using h1 h2 mismatched_verify [OF h1 h2, of "[1, 2]" None] by simp
qed

section \<open>Immutability and memoization\<close>

text \<open>No method but \<^verbatim>\<open>hash160\<close> calls the \<^verbatim>\<open>hash160\<close> function.\<close>

lemma step_ok_refl: "filter is_Call_hash160 l = [] \<Longrightarrow> step_ok k k l"
  by (simp add: step_ok_def)

lemma step_ok_trans: "step_ok k k1 l \<Longrightarrow> step_ok k1 k2 l1 \<Longrightarrow> step_ok k k2 (l @ l1)"
  by (auto simp: step_ok_def)

lemma step_ok_append: "step_ok k k1 l \<Longrightarrow> filter is_Call_hash160 l1 = [] \<Longrightarrow> step_ok k k1 (l @ l1)"
  by (simp add: step_ok_def)

lemma step_ok_prepend: "step_ok k k1 l \<Longrightarrow> filter is_Call_hash160 l1 = [] \<Longrightarrow> step_ok k k1 (l1 @ l)"
  by (simp add: step_ok_def)

lemma sec_no_hash160: "filter is_Call_hash160 (snd (Key_sec enc k uu)) = []"
  by (simp add: Key_sec_def Let_def split: option.splits)

lemma wif_no_hash160: "filter is_Call_hash160 (snd (Key_wif enc k uu p)) = []"
  by (simp add: Key_wif_def Let_def split: option.splits)

lemma sec_as_hex_no_hash160: "filter is_Call_hash160 (snd (Key_sec_as_hex enc k uu p)) = []"
  using sec_no_hash160 [of enc k uu]
  by (auto simp: Key_sec_as_hex_def split: option.splits prod.splits)

lemma sign_no_hash160: "filter is_Call_hash160 (snd (Key_sign enc k h)) = []"
  by (simp add: Key_sign_def Let_def split: option.splits prod.splits)

lemma verify_candidates_no_hash160:
  "filter is_Call_hash160 (snd (verify_candidates enc h160 cands)) = []"
  by (induction cands) (auto split: prod.splits)

lemma hash160_step: "step_ok k (fst (snd (Key_hash160 enc k uu))) (snd (snd (Key_hash160 enc k uu)))"
  by (auto simp: Key_hash160_def hash160_of_sec_def Key_sec_def Key_public_pair_def Let_def
      step_ok_def unset_slots_def split: option.splits prod.splits sum.splits)

lemma address_step: "step_ok k (fst (snd (Key_address enc k uu p))) (snd (snd (Key_address enc k uu p)))"
proof -
  obtain r k1 l where h: "Key_hash160 enc k uu = (r, k1, l)" by (cases "Key_hash160 enc k uu") auto
  with hash160_step [of k enc uu] have s: "step_ok k k1 l" by simp
  show ?thesis
    using s step_ok_append [OF s, of "[Call_hash160_sec_to_bitcoin_address a b]" for a b]
    by (auto simp: Key_address_def h split: sum.splits option.splits)
qed

lemma as_text_step:
  "step_ok k (fst (snd (Key_as_text enc k ap sp wp))) (snd (snd (Key_as_text enc k ap sp wp)))"
proof (cases "truthy_int (Key_secret_exponent k)")
  case True
  then show ?thesis
    using wif_no_hash160 [of enc k None wp]
    by (auto simp: Key_as_text_def step_ok_def split: prod.splits)
next
  case False
  obtain r l where sh: "Key_sec_as_hex enc k None sp = (r, l)"
    by (cases "Key_sec_as_hex enc k None sp") auto
  with sec_as_hex_no_hash160 [of enc k None sp] have l: "filter is_Call_hash160 l = []" by simp
  obtain r1 k1 l1 where a: "Key_address enc k None ap = (r1, k1, l1)"
    by (cases "Key_address enc k None ap") auto
  with address_step [of k enc None ap] have s: "step_ok k k1 l1" by simp
  show ?thesis
    using False sh a l step_ok_refl [OF l, of k] step_ok_prepend [OF s l]
    by (auto simp: Key_as_text_def split: sum.splits)
qed

lemma verify_candidates_no_hash160_dest:
  "verify_candidates enc h160 cands = (r, l) \<Longrightarrow> filter is_Call_hash160 l = []"
  using verify_candidates_no_hash160 [of enc h160 cands] by simp

lemma verify_step:
  "step_ok k (fst (snd (Key_verify enc k h sig g))) (snd (snd (Key_verify enc k h sig g)))"
proof (cases "Key_public_pair k")
  case (Some pubkey)
  then show ?thesis
    by (simp add: Key_verify_def Let_def step_ok_def split: option.splits)
next
  case None
  obtain r k1 l where hh: "Key_hash160 enc k None = (r, k1, l)"
    by (cases "Key_hash160 enc k None") auto
  with hash160_step [of k enc None] have s: "step_ok k k1 l" by simp
  have pre: "step_ok k k1 (a # b # c # l @ l2)"
    if "filter is_Call_hash160 l2 = []" "\<not> is_Call_hash160 a" "\<not> is_Call_hash160 b"
      "\<not> is_Call_hash160 c" for a b c l2
    using s that by (simp add: step_ok_def)
  have pre0: "step_ok k k1 (a # b # c # l)"
    if "\<not> is_Call_hash160 a" "\<not> is_Call_hash160 b" "\<not> is_Call_hash160 c" for a b c
    using s that by (simp add: step_ok_def)
  show ?thesis
    using None hh
    by (auto simp: Key_verify_def Let_def step_ok_refl intro!: pre pre0
        dest: verify_candidates_no_hash160_dest split: option.splits sum.splits prod.splits)
qed

lemma invoke_step: "step_ok k (fst (invoke enc k m)) (snd (invoke enc k m))"
proof (cases m)
  case (M_hash160 uu)
  then show ?thesis using hash160_step [of k enc uu] by simp
next
  case (M_address uu p)
  then show ?thesis using address_step [of k enc uu p] by simp
next
  case (M_as_text ap sp wp)
  then show ?thesis using as_text_step [of k enc ap sp wp] by simp
next
  case (M_verify h sig g)
  then show ?thesis using verify_step [of k enc h sig g] by simp
qed (simp_all add: step_ok_refl wif_no_hash160 sec_no_hash160 sec_as_hex_no_hash160 sign_no_hash160)

lemma invoke_all_step: "step_ok k (fst (invoke_all enc k ms)) (snd (invoke_all enc k ms))"
proof (induction ms arbitrary: k)
  case Nil
  show ?case by (simp add: step_ok_refl)
next
  case (Cons m ms)
  obtain k1 l where i: "invoke enc k m = (k1, l)" by (cases "invoke enc k m") auto
  with invoke_step [of k enc m] have s1: "step_ok k k1 l" by simp
  obtain k2 l1 where j: "invoke_all enc k1 ms = (k2, l1)" by (cases "invoke_all enc k1 ms") auto
  with Cons.IH [of k1] have s2: "step_ok k1 k2 l1" by simp
  show ?case using i j step_ok_trans [OF s1 s2] by simp
qed

text \<open>
  Claim C9 as stated: the serialized public key is computed at most once per instance
  and compression variant, and cached. \<^verbatim>\<open>sec()\<close> has no cache: two calls for the same
  variant on the private key of the scalar 3 call \<^verbatim>\<open>public_pair_to_sec\<close> twice, with the
  same arguments.
\<close>

theorem sec_not_cached_counterexample:
  "invoke_all toy_encoding toy_private_key [M_sec None, M_sec None]
     = (toy_private_key,
        [Call_public_pair_to_sec (toy_point 3) True, Call_public_pair_to_sec (toy_point 3) True])"
  by (simp add: toy_private_key_def Key_sec_def Key_public_pair_def Key_use_uncompressed_def)

text \<open>
  Claim C9, amended. Over any sequence of method calls on an instance, every attribute
  but the two hash160 memoization slots keeps its value; a slot that holds a value keeps
  that value; the \<^verbatim>\<open>hash160\<close> function is called exactly once for each slot that goes
  from unset to set, so at most once per compression variant; and \<^verbatim>\<open>hash160()\<close> for a
  variant whose slot is set returns the slot without calling any collaborator. The
  serialized public key is not cached: every \<^verbatim>\<open>sec()\<close> on a key with a public pair
  calls \<^verbatim>\<open>public_pair_to_sec\<close> once.
\<close>

theorem lifecycle:
  assumes "invoke_all enc k ms = (k1, l)"
  shows "self_class k1 = self_class k
     \<and> self_prefer_uncompressed k1 = self_prefer_uncompressed k
     \<and> self_secret_exponent k1 = self_secret_exponent k
     \<and> self_generator k1 = self_generator k
     \<and> self_public_pair k1 = self_public_pair k
     \<and> (self_hash160_uncompressed k = None \<or> self_hash160_uncompressed k1 = self_hash160_uncompressed k)
     \<and> (self_hash160_compressed k = None \<or> self_hash160_compressed k1 = self_hash160_compressed k)
     \<and> length (filter is_Call_hash160 l) + unset_slots k1 = unset_slots k
     \<and> ((if Key_use_uncompressed k1 use_uncompressed then self_hash160_uncompressed k1
          else self_hash160_compressed k1) \<noteq> None \<longrightarrow>
        Key_hash160 enc k1 use_uncompressed
          = (Inr (if Key_use_uncompressed k1 use_uncompressed then self_hash160_uncompressed k1
                  else self_hash160_compressed k1), k1, []))
     \<and> (case Key_public_pair k1 of
          None \<Rightarrow> Key_sec enc k1 use_uncompressed = (None, [])
        | Some pp \<Rightarrow>
            Key_sec enc k1 use_uncompressed
              = (Some (public_pair_to_sec enc pp (\<not> Key_use_uncompressed k1 use_uncompressed)),
                 [Call_public_pair_to_sec pp (\<not> Key_use_uncompressed k1 use_uncompressed)]))"
proof -
  from invoke_all_step [of k enc ms] assms have "step_ok k k1 l" by simp
  then have frame: "self_class k1 = self_class k
     \<and> self_prefer_uncompressed k1 = self_prefer_uncompressed k
     \<and> self_secret_exponent k1 = self_secret_exponent k
     \<and> self_generator k1 = self_generator k
     \<and> self_public_pair k1 = self_public_pair k
     \<and> (self_hash160_uncompressed k = None \<or> self_hash160_uncompressed k1 = self_hash160_uncompressed k)
     \<and> (self_hash160_compressed k = None \<or> self_hash160_compressed k1 = self_hash160_compressed k)
     \<and> length (filter is_Call_hash160 l) + unset_slots k1 = unset_slots k"
    by (simp add: step_ok_def)
  have hit: "(if Key_use_uncompressed k1 use_uncompressed then self_hash160_uncompressed k1
          else self_hash160_compressed k1) \<noteq> None \<longrightarrow>
        Key_hash160 enc k1 use_uncompressed
          = (Inr (if Key_use_uncompressed k1 use_uncompressed then self_hash160_uncompressed k1
                  else self_hash160_compressed k1), k1, [])"
    by (simp add: Key_hash160_def Let_def)
  have sec: "(case Key_public_pair k1 of
          None \<Rightarrow> Key_sec enc k1 use_uncompressed = (None, [])
        | Some pp \<Rightarrow>
            Key_sec enc k1 use_uncompressed
              = (Some (public_pair_to_sec enc pp (\<not> Key_use_uncompressed k1 use_uncompressed)),
                 [Call_public_pair_to_sec pp (\<not> Key_use_uncompressed k1 use_uncompressed)]))"
    by (simp add: Key_sec_def Let_def split: option.splits)
  from frame hit sec show ?thesis by blast
qed

theorem lifecycle_witness:
  "invoke_all toy_encoding toy_private_key [M_hash160 None, M_sec None, M_hash160 None]
     = (toy_private_key\<lparr>self_hash160_compressed := Some [3, 2]\<rparr>,
        [Call_public_pair_to_sec (toy_point 3) True, Call_hash160 [2, 3],
         Call_public_pair_to_sec (toy_point 3) True])
   \<and> self_secret_exponent (toy_private_key\<lparr>self_hash160_compressed := Some [3, 2]\<rparr>)
       = self_secret_exponent toy_private_key
   \<and> Key_hash160 toy_encoding (toy_private_key\<lparr>self_hash160_compressed := Some [3, 2]\<rparr>) None
       = (Inr (Some [3, 2]), toy_private_key\<lparr>self_hash160_compressed := Some [3, 2]\<rparr>, [])"
proof -
  have r: "invoke_all toy_encoding toy_private_key [M_hash160 None, M_sec None, M_hash160 None]
     = (toy_private_key\<lparr>self_hash160_compressed := Some [3, 2]\<rparr>,
        [Call_public_pair_to_sec (toy_point 3) True, Call_hash160 [2, 3],
         Call_public_pair_to_sec (toy_point 3) True])"
    by (simp add: toy_defs toy_private_key_def hash160_defs)
  have p: "Key_use_uncompressed (toy_private_key\<lparr>self_hash160_compressed := Some [3, 2]\<rparr>) None = False"
    by (simp add: Key_use_uncompressed_def toy_private_key_def)
  show ?thesis
    using r p lifecycle [OF r, of None] by simp
qed

end
